theory Spec2Isabelle
  imports Complex_Main "HOL-Library.AList" "HOL-Library.Sublist"
begin

section \<open>JavaScript values and string helpers\<close>

text \<open>
  A value of type \<open>string | null | undefined\<close> is a \<open>string option\<close>. JavaScript's
  \<open>a || b\<close> yields \<open>a\<close> when \<open>a\<close> is truthy; for strings that is: defined and not
  empty.
\<close>

datatype js_error = Error string | TypeError | SyntaxError | FsError | NetworkError

definition truthy :: "string option \<Rightarrow> bool" where
  "truthy a = (case a of None \<Rightarrow> False | Some s \<Rightarrow> s \<noteq> [])"

definition or_else :: "string option \<Rightarrow> string \<Rightarrow> string" where
  "or_else a d = (case a of None \<Rightarrow> d | Some s \<Rightarrow> if s = [] then d else s)"

definition js_or :: "string option \<Rightarrow> string option \<Rightarrow> string option" where
  "js_or a b = (if truthy a then a else b)"

text \<open>
  A \<open>char\<close> stands for a UTF-16 code unit from U+0000 to U+00FF. In that range
  \<open>String.prototype.toLowerCase\<close> changes the upper-case letters and nothing else: A to Z,
  and U+00C0 to U+00DE without the multiplication sign U+00D7; each moves up by 32.
\<close>

definition lower_char :: "char \<Rightarrow> char" where
  "lower_char c =
     (let n = (of_char c :: nat)
      in if (65 \<le> n \<and> n \<le> 90) \<or> (192 \<le> n \<and> n \<le> 214) \<or> (216 \<le> n \<and> n \<le> 222)
         then char_of (n + 32) else c)"

definition toLowerCase :: "string \<Rightarrow> string" where
  "toLowerCase s = map lower_char s"

fun startsWith :: "string \<Rightarrow> string \<Rightarrow> bool" where
  "startsWith s [] = True"
| "startsWith [] (c # q) = False"
| "startsWith (x # s) (c # q) = (x = c \<and> startsWith s q)"

text \<open>\<open>s.includes(q)\<close>: \<open>q\<close> occurs in \<open>s\<close> as a contiguous run.\<close>

fun str_includes :: "string \<Rightarrow> string \<Rightarrow> bool" where
  "str_includes [] q = (q = [])"
| "str_includes (x # s) q = (startsWith (x # s) q \<or> str_includes s q)"

definition endsWith :: "string \<Rightarrow> string \<Rightarrow> bool" where
  "endsWith s t = (length t \<le> length s \<and> drop (length s - length t) s = t)"

text \<open>\<open>s.replace(pat, rep)\<close> with a string pattern: the first occurrence only.\<close>

fun replace_first :: "string \<Rightarrow> string \<Rightarrow> string \<Rightarrow> string" where
  "replace_first pat rep [] = (if pat = [] then rep else [])"
| "replace_first pat rep (x # s) =
     (if startsWith (x # s) pat then rep @ drop (length pat) (x # s)
      else x # replace_first pat rep s)"

fun join :: "string \<Rightarrow> string list \<Rightarrow> string" where
  "join sep [] = []"
| "join sep [x] = x"
| "join sep (x # y # ys) = x @ sep @ join sep (y # ys)"

text \<open>\<open>xs.slice(0, n)\<close>: a negative end counts from the end of the array.\<close>

definition slice0 :: "int \<Rightarrow> 'a list \<Rightarrow> 'a list" where
  "slice0 n xs = (if 0 \<le> n then take (nat n) xs else take (length xs - nat (- n)) xs)"

text \<open>Decimal rendering of an integer inside a template literal.\<close>

fun digits_of :: "nat \<Rightarrow> string" where
  "digits_of n =
     (if n < 10 then [char_of (48 + n)]
      else digits_of (n div 10) @ [char_of (48 + n mod 10)])"

declare digits_of.simps [simp del]

definition show_int :: "int \<Rightarrow> string" where
  "show_int i = (if i < 0 then CHR ''-'' # digits_of (nat (- i)) else digits_of (nat i))"

section \<open>The record model (memory-extension.ts)\<close>

datatype KnowledgeSourceClass =
  USER_PROVIDED | ENGINEER_ADDED | SYSTEM_GENERATED | EXTERNAL_API | DOCUMENT_PARSED

datatype visibility_t = Private | Team | Public

fun visibility_str :: "visibility_t \<Rightarrow> string" where
  "visibility_str Private = ''private''"
| "visibility_str Team = ''team''"
| "visibility_str Public = ''public''"

record ConversationMemory =
  sessionId :: string
  timestamp :: int
  userMessage :: string
  assistantResponse :: string
  context' :: "string list"
  tags :: "string list"
  source :: "KnowledgeSourceClass option"
  userId :: "string option"
  teamId :: "string option"
  visibility :: "visibility_t option"
  projectId :: "string option"
  domain :: "string option"

text \<open>
  Metadata objects are association lists from key to value, in the order the object
  literal lists its keys. A key whose value is \<open>undefined\<close> is left out, as it is when the
  object is serialised.
\<close>

datatype meta_value = MStr string | MNum int | MList "string list"

type_synonym metadata_t = "(string \<times> meta_value) list"

record MemorySearchResult =
  content :: string
  metadata :: "metadata_t option"
  distance :: real

definition opt_field :: "string \<Rightarrow> string option \<Rightarrow> metadata_t" where
  "opt_field k v = (if truthy v then [(k, MStr (the v))] else [])"

section \<open>The request scope context (lib/request-context.ts)\<close>

record request_context =
  currentUserId :: "string option"
  currentTeamId :: "string option"

definition RequestContext_set :: "string option \<Rightarrow> string option \<Rightarrow> request_context" where
  "RequestContext_set u t =
     \<lparr>currentUserId = (if truthy u then u else None),
      currentTeamId = (if truthy t then t else None)\<rparr>"

definition RequestContext_clear :: request_context where
  "RequestContext_clear = \<lparr>currentUserId = None, currentTeamId = None\<rparr>"

text \<open>The environment variables the memory manager reads.\<close>

record process_env =
  MCP_USER_ID :: "string option"
  MCP_TEAM_ID :: "string option"
  MCP_DISABLE_JSON :: "string option"
  MCP_PRIVATE_JSON_ONLY :: "string option"
  MCP_PROJECT_ID :: "string option"

section \<open>The file system\<close>

text \<open>
  A file's text is represented by what \<open>JSON.parse\<close> makes of it: it throws
  (\<open>Unparseable\<close>), it yields a value that is not an array (\<open>NonArray\<close>: an object, a
  number, a string, \<open>null\<close>), or it yields an array of records (\<open>MemoryArray\<close>), which is
  what \<open>JSON.stringify\<close> of such an array writes. The file system is a tree of directories
  and regular files below the root \<open>/\<close>; a directory lists its entries in the order
  \<open>readdir\<close> reports them. \<open>disk_fault\<close> says that the volume rejects every change
  (read-only or full).
\<close>

datatype file_content = Unparseable | NonArray | MemoryArray "ConversationMemory list"

datatype node = File file_content | Dir "(string \<times> node) list"

record fs_state =
  root :: node
  disk_fault :: bool

text \<open>
  A path is the list of the segments of an absolute, normalised POSIX path. \<open>path.join\<close>
  splits the joined name at every \<open>/\<close> and normalises: empty segments and \<open>.\<close> are
  dropped, \<open>..\<close> removes the segment before it (and nothing at the root).
\<close>

type_synonym path = "string list"

fun split_on :: "char \<Rightarrow> string \<Rightarrow> string list" where
  "split_on c [] = [[]]"
| "split_on c (x # xs) =
     (if x = c then [] # split_on c xs
      else case split_on c xs of [] \<Rightarrow> [[x]] | h # t \<Rightarrow> (x # h) # t)"

fun normalize_onto :: "path \<Rightarrow> string list \<Rightarrow> path" where
  "normalize_onto p [] = p"
| "normalize_onto p (s # ss) =
     (if s = [] \<or> s = ''.'' then normalize_onto p ss
      else if s = ''..'' then normalize_onto (butlast p) ss
      else normalize_onto (p @ [s]) ss)"

definition path_join :: "path \<Rightarrow> string \<Rightarrow> path" where
  "path_join p name = normalize_onto p (split_on CHR ''/'' name)"

text \<open>A name that \<open>path.join\<close> appends as it is: one segment, not \<open>.\<close> or \<open>..\<close>.\<close>

definition plain :: "string \<Rightarrow> bool" where
  "plain name = (CHR ''/'' \<notin> set name \<and> name \<noteq> [] \<and> name \<noteq> ''.'' \<and> name \<noteq> ''..'')"

text \<open>The node at a path, if there is one.\<close>

fun lookup :: "node \<Rightarrow> path \<Rightarrow> node option" where
  "lookup n [] = Some n"
| "lookup (File c) (s # p) = None"
| "lookup (Dir es) (s # p) = (case map_of es s of None \<Rightarrow> None | Some n \<Rightarrow> lookup n p)"

text \<open>
  The tree with every missing directory of a path created; \<open>None\<close> when a regular file
  is in the way.
\<close>

fun mkdirs :: "node \<Rightarrow> path \<Rightarrow> node option" where
  "mkdirs (File c) p = None"
| "mkdirs (Dir es) [] = Some (Dir es)"
| "mkdirs (Dir es) (s # p) =
     (case map_of es s of
        None \<Rightarrow>
          (case mkdirs (Dir []) p of
             None \<Rightarrow> None
           | Some n' \<Rightarrow> Some (Dir (es @ [(s, n')])))
      | Some n \<Rightarrow>
          (case mkdirs n p of
             None \<Rightarrow> None
           | Some n' \<Rightarrow> Some (Dir (AList.update s n' es))))"

text \<open>
  The tree with the entry at a path replaced, or added at the end of its directory;
  \<open>None\<close> when the directory that should hold it does not exist.
\<close>

fun put :: "node \<Rightarrow> path \<Rightarrow> node \<Rightarrow> node option" where
  "put n [] new = Some new"
| "put (File c) (s # p) new = None"
| "put (Dir es) (s # p) new =
     (if p = [] then Some (Dir (AList.update s new es))
      else case map_of es s of
             None \<Rightarrow> None
           | Some n \<Rightarrow>
               (case put n p new of
                  None \<Rightarrow> None
                | Some n' \<Rightarrow> Some (Dir (AList.update s n' es))))"

text \<open>The tree without the entry at a path; \<open>None\<close> when there is no such entry.\<close>

fun remove :: "node \<Rightarrow> path \<Rightarrow> node option" where
  "remove n [] = None"
| "remove (File c) (s # p) = None"
| "remove (Dir es) (s # p) =
     (if p = [] then (if map_of es s = None then None else Some (Dir (AList.delete s es)))
      else case map_of es s of
             None \<Rightarrow> None
           | Some n \<Rightarrow>
               (case remove n p of
                  None \<Rightarrow> None
                | Some n' \<Rightarrow> Some (Dir (AList.update s n' es))))"

text \<open>\<open>fs.mkdir(p, {recursive: true})\<close>\<close>

definition fs_mkdir :: "fs_state \<Rightarrow> path \<Rightarrow> js_error + fs_state" where
  "fs_mkdir st p =
     (case lookup (root st) p of
        Some (Dir es) \<Rightarrow> Inr st
      | Some (File c) \<Rightarrow> Inl FsError
      | None \<Rightarrow>
          if disk_fault st then Inl FsError
          else case mkdirs (root st) p of
                 None \<Rightarrow> Inl FsError
               | Some r \<Rightarrow> Inr (st\<lparr>root := r\<rparr>))"

text \<open>\<open>fs.access(p)\<close>: does the path exist.\<close>

definition fs_access :: "fs_state \<Rightarrow> path \<Rightarrow> bool" where
  "fs_access st p = (lookup (root st) p \<noteq> None)"

text \<open>\<open>(await fs.stat(p)).isDirectory()\<close>, with \<open>None\<close> when \<open>stat\<close> fails.\<close>

definition fs_stat_isDirectory :: "fs_state \<Rightarrow> path \<Rightarrow> bool option" where
  "fs_stat_isDirectory st p =
     (case lookup (root st) p of
        None \<Rightarrow> None
      | Some (File c) \<Rightarrow> Some False
      | Some (Dir es) \<Rightarrow> Some True)"

definition fs_readdir :: "fs_state \<Rightarrow> path \<Rightarrow> js_error + string list" where
  "fs_readdir st p =
     (case lookup (root st) p of
        Some (Dir es) \<Rightarrow> Inr (map fst es)
      | _ \<Rightarrow> Inl FsError)"

definition fs_readFile :: "fs_state \<Rightarrow> path \<Rightarrow> js_error + file_content" where
  "fs_readFile st p =
     (case lookup (root st) p of
        Some (File c) \<Rightarrow> Inr c
      | _ \<Rightarrow> Inl FsError)"

text \<open>
  \<open>fs.writeFile(p, text)\<close>: the directory that holds the file must exist, and the path
  must not be a directory.
\<close>

definition fs_writeFile :: "fs_state \<Rightarrow> path \<Rightarrow> file_content \<Rightarrow> js_error + fs_state" where
  "fs_writeFile st p c =
     (if disk_fault st \<or> p = [] then Inl FsError
      else case lookup (root st) (butlast p) of
             Some (Dir es) \<Rightarrow>
               (case lookup (root st) p of
                  Some (Dir es') \<Rightarrow> Inl FsError
                | _ \<Rightarrow>
                    (case put (root st) p (File c) of
                       None \<Rightarrow> Inl FsError
                     | Some r \<Rightarrow> Inr (st\<lparr>root := r\<rparr>)))
           | _ \<Rightarrow> Inl FsError)"

text \<open>\<open>fs.unlink(p)\<close>: removes a regular file.\<close>

definition fs_unlink :: "fs_state \<Rightarrow> path \<Rightarrow> js_error + fs_state" where
  "fs_unlink st p =
     (if disk_fault st then Inl FsError
      else case lookup (root st) p of
             Some (File c) \<Rightarrow>
               (case remove (root st) p of
                  None \<Rightarrow> Inl FsError
                | Some r \<Rightarrow> Inr (st\<lparr>root := r\<rparr>))
           | _ \<Rightarrow> Inl FsError)"

section \<open>The vector backend's REST adapter (lib/chroma-rest.ts)\<close>

text \<open>
  An HTTP response as \<open>ensureCollection\<close> reads it: the status code and the body text.
  A request that never yields a response (the \<open>fetch\<close> promise rejects) is the left
  injection of the result type.
\<close>

record http_response =
  status :: int
  body_text :: string

definition ensureCollection :: "(js_error + http_response) \<Rightarrow> js_error + unit" where
  "ensureCollection fetched =
     (case fetched of
        Inl e \<Rightarrow> Inl e
      | Inr r \<Rightarrow>
          if \<not> (status r \<in> set [200, 201, 409])
          then Inl (Error (''ensureCollection failed: '' @ show_int (status r) @ '' '' @ body_text r))
          else Inr ())"

section \<open>The vector backend as the memory manager sees it\<close>

text \<open>
  The backend is an external service. Its behaviour is a parameter: whether the client can
  be constructed, whether the collection can be fetched or created, and what it answers
  to \<open>add\<close> and \<open>query\<close> given the calls made so far (\<open>False\<close> and \<open>None\<close>: the call
  throws). A query reply is the list of (document, metadata, distance) rows of
  \<open>documents[0]\<close>, \<open>metadatas[0]\<close> and \<open>distances[0]\<close>. Every call issued to the backend is
  recorded in the world's call log, oldest first.
\<close>

datatype cond = Eq string | In "string list"

type_synonym where_filter = "(string \<times> cond) list"

datatype adapter_call =
    GetCollection
  | CreateCollection
  | Add string string metadata_t
  | Query string int where_filter

record backend =
  construct_ok :: bool
  getCollection_ok :: bool
  createCollection_ok :: bool
  add_ok :: "adapter_call list \<Rightarrow> string \<Rightarrow> string \<Rightarrow> metadata_t \<Rightarrow> bool"
  query_reply :: "adapter_call list \<Rightarrow> string \<Rightarrow> int \<Rightarrow> where_filter
                  \<Rightarrow> (string \<times> metadata_t option \<times> real) list option"

text \<open>
  What a filter means for a metadata object: every key of the filter is present in the
  metadata with a value the condition accepts.
\<close>

fun cond_holds :: "cond \<Rightarrow> meta_value option \<Rightarrow> bool" where
  "cond_holds (Eq s) v = (v = Some (MStr s))"
| "cond_holds (In ss) v = list_ex (\<lambda>s. v = Some (MStr s)) ss"

definition satisfies :: "metadata_t \<Rightarrow> where_filter \<Rightarrow> bool" where
  "satisfies md wh = list_all (\<lambda>kc. cond_holds (snd kc) (map_of md (fst kc))) wh"

section \<open>The memory manager (memory-extension.ts)\<close>

datatype chroma_client = ChromaClient

datatype chroma_collection = Collection

text \<open>
  \<open>memoryDir\<close> is an absolute, normalised path: memory-tools.ts joins \<open>.mcp-memory\<close> to the
  first allowed directory, which index.ts resolves and normalises.
\<close>

record manager =
  client :: "chroma_client option"
  collection :: "chroma_collection option"
  memoryDir :: path
  initialized :: bool

record world =
  fs :: fs_state
  rc :: request_context
  env :: process_env
  calls :: "adapter_call list"

definition constructor :: "backend \<Rightarrow> path \<Rightarrow> manager" where
  "constructor b dir =
     \<lparr>client = (if construct_ok b then Some ChromaClient else None),
      collection = None,
      memoryDir = dir,
      initialized = False\<rparr>"

definition initialize :: "backend \<Rightarrow> manager \<Rightarrow> world \<Rightarrow> manager \<times> world" where
  "initialize b m w =
     (if initialized m then (m, w)
      else case fs_mkdir (fs w) (memoryDir m) of
        Inl e \<Rightarrow> (m\<lparr>client := None, collection := None, initialized := True\<rparr>, w)
      | Inr st \<Rightarrow>
          (case client m of
             None \<Rightarrow> (m\<lparr>initialized := True\<rparr>, w\<lparr>fs := st\<rparr>)
           | Some c \<Rightarrow>
               if getCollection_ok b
               then (m\<lparr>collection := Some Collection, initialized := True\<rparr>,
                     w\<lparr>fs := st, calls := calls w @ [GetCollection]\<rparr>)
               else if createCollection_ok b
               then (m\<lparr>collection := Some Collection, initialized := True\<rparr>,
                     w\<lparr>fs := st, calls := calls w @ [GetCollection, CreateCollection]\<rparr>)
               else (m\<lparr>client := None, collection := None, initialized := True\<rparr>,
                     w\<lparr>fs := st, calls := calls w @ [GetCollection, CreateCollection]\<rparr>)))"

definition isAvailable :: "manager \<Rightarrow> bool" where
  "isAvailable m = (initialized m \<and> client m \<noteq> None \<and> collection m \<noteq> None)"

text \<open>The character class \<open>[a-zA-Z0-9._-]\<close> and \<open>.replace(/[^a-zA-Z0-9._-]/g, '_')\<close>.\<close>

definition safe_char :: "char \<Rightarrow> bool" where
  "safe_char c =
     (let n = (of_char c :: nat)
      in (97 \<le> n \<and> n \<le> 122) \<or> (65 \<le> n \<and> n \<le> 90) \<or> (48 \<le> n \<and> n \<le> 57)
         \<or> c = CHR ''.'' \<or> c = CHR ''_'' \<or> c = CHR ''-'')"

definition sanitize :: "string \<Rightarrow> string" where
  "sanitize s = map (\<lambda>c. if safe_char c then c else CHR ''_'') s"

definition storeConversationToJson ::
    "manager \<Rightarrow> world \<Rightarrow> ConversationMemory \<Rightarrow> bool \<times> world" where
  "storeConversationToJson m w memory =
     (let rcUser = currentUserId (rc w);
          userSafe = sanitize (or_else (userId memory)
                       (or_else rcUser (or_else (MCP_USER_ID (env w)) ''unknown-user'')));
          userDir = path_join (memoryDir m) userSafe
      in case fs_mkdir (fs w) userDir of
           Inl e \<Rightarrow> (False, w)
         | Inr st \<Rightarrow>
             (let sessionFile = path_join userDir (sessionId memory @ ''.json'')
              in case (case fs_readFile st sessionFile of
                         Inl e \<Rightarrow> Inr []
                       | Inr Unparseable \<Rightarrow> Inr []
                       | Inr NonArray \<Rightarrow> Inl TypeError
                       | Inr (MemoryArray existing) \<Rightarrow> Inr existing) of
                   Inl e \<Rightarrow> (False, w\<lparr>fs := st\<rparr>)
                 | Inr existingData \<Rightarrow>
                     (case fs_writeFile st sessionFile (MemoryArray (existingData @ [memory])) of
                        Inl e \<Rightarrow> (False, w\<lparr>fs := st\<rparr>)
                      | Inr st' \<Rightarrow> (True, w\<lparr>fs := st'\<rparr>))))"

definition disableJson :: "process_env \<Rightarrow> bool" where
  "disableJson e =
     (toLowerCase (or_else (MCP_DISABLE_JSON e) []) = ''true'' \<or> MCP_DISABLE_JSON e = Some ''1'')"

definition jsonOnlyPrivate :: "process_env \<Rightarrow> bool" where
  "jsonOnlyPrivate e = (or_else (MCP_PRIVATE_JSON_ONLY e) ''1'' = ''1'')"

definition memory_id :: "ConversationMemory \<Rightarrow> string" where
  "memory_id memory = sessionId memory @ ''_'' @ show_int (timestamp memory)"

definition memory_document :: "ConversationMemory \<Rightarrow> string" where
  "memory_document memory =
     ''User: '' @ userMessage memory @ [CHR 0x0A] @ ''Assistant: '' @ assistantResponse memory"

text \<open>The metadata object \<open>storeConversation\<close> passes to \<open>collection.add\<close>.\<close>

definition store_metadata ::
    "process_env \<Rightarrow> ConversationMemory \<Rightarrow> string \<Rightarrow> string \<Rightarrow> visibility_t \<Rightarrow> metadata_t" where
  "store_metadata e memory uid tid vis =
     [(''sessionId'', MStr (sessionId memory)),
      (''timestamp'', MNum (timestamp memory)),
      (''userMessage'', MStr (userMessage memory)),
      (''assistantResponse'', MStr (assistantResponse memory)),
      (''context'', MStr (join '', '' (context' memory))),
      (''tags'', MStr (join '', '' (tags memory))),
      (''userId'', MStr uid),
      (''teamId'', MStr tid),
      (''visibility'', MStr (visibility_str vis))]
     @ opt_field ''projectId'' (js_or (projectId memory) (MCP_PROJECT_ID e))
     @ opt_field ''domain'' (domain memory)"

definition resolve_userId :: "world \<Rightarrow> ConversationMemory \<Rightarrow> string" where
  "resolve_userId w memory =
     or_else (currentUserId (rc w))
       (or_else (MCP_USER_ID (env w)) (or_else (userId memory) ''unknown-user''))"

definition resolve_teamId :: "world \<Rightarrow> ConversationMemory \<Rightarrow> string" where
  "resolve_teamId w memory =
     or_else (currentTeamId (rc w))
       (or_else (MCP_TEAM_ID (env w)) (or_else (teamId memory) ''default-team''))"

definition resolve_visibility :: "ConversationMemory \<Rightarrow> visibility_t" where
  "resolve_visibility memory = (case visibility memory of None \<Rightarrow> Team | Some v \<Rightarrow> v)"

text \<open>
  The precedence in the words of the specification: the request scope context if set, else
  the environment default, else the value on the record, else the sentinel. A value is set
  when it is defined and not empty.
\<close>

definition precedence :: "string option \<Rightarrow> string option \<Rightarrow> string option \<Rightarrow> string \<Rightarrow> string" where
  "precedence ctx dflt given sentinel =
     (if truthy ctx then the ctx
      else if truthy dflt then the dflt
      else if truthy given then the given
      else sentinel)"

text \<open>
  In \<open>storeConversation\<close> the \<open>add\<close> call sits in a try block whose handler returns
  true as well, so both outcomes of \<open>add_ok\<close> give the same result.
\<close>

text \<open>The record \<open>storeConversation\<close> hands on: \<open>{ ...memory, userId, teamId, visibility }\<close>.\<close>

definition enrich :: "world \<Rightarrow> ConversationMemory \<Rightarrow> ConversationMemory" where
  "enrich w memory =
     memory\<lparr>userId := Some (resolve_userId w memory), teamId := Some (resolve_teamId w memory),
            visibility := Some (resolve_visibility memory)\<rparr>"

definition storeConversation ::
    "backend \<Rightarrow> manager \<Rightarrow> world \<Rightarrow> ConversationMemory \<Rightarrow> bool \<times> manager \<times> world" where
  "storeConversation b m0 w0 memory =
     (let (m, w) = (if \<not> initialized m0 then initialize b m0 w0 else (m0, w0));
          uid = resolve_userId w memory;
          tid = resolve_teamId w memory;
          vis = resolve_visibility memory;
          w1 = (if \<not> disableJson (env w)
                then snd (storeConversationToJson m w
                       (memory\<lparr>userId := Some uid, teamId := Some tid, visibility := Some vis\<rparr>))
                else w)
      in if vis = Private \<and> jsonOnlyPrivate (env w) then (True, m, w1)
         else if client m = None \<or> collection m = None then (True, m, w1)
         else (let call = Add (memory_id memory) (memory_document memory)
                            (store_metadata (env w) memory uid tid vis)
               in if add_ok b (calls w1) (memory_id memory) (memory_document memory)
                       (store_metadata (env w) memory uid tid vis)
                  then (True, m, w1\<lparr>calls := calls w1 @ [call]\<rparr>)
                  else (True, m, w1\<lparr>calls := calls w1 @ [call]\<rparr>)))"

subsection \<open>Search\<close>

definition opt_cond :: "string \<Rightarrow> string option \<Rightarrow> where_filter" where
  "opt_cond k v = (if truthy v then [(k, Eq (the v))] else [])"

definition build_where :: "string option \<Rightarrow> process_env \<Rightarrow> where_filter" where
  "build_where sid e =
     opt_cond ''sessionId'' sid @ opt_cond ''teamId'' (MCP_TEAM_ID e)
     @ [(''visibility'', In [''team'', ''public''])]"

definition json_result :: "ConversationMemory \<Rightarrow> MemorySearchResult" where
  "json_result memory =
     \<lparr>content = memory_document memory,
      metadata = Some [(''sessionId'', MStr (sessionId memory)),
                       (''timestamp'', MNum (timestamp memory)),
                       (''tags'', MList (tags memory)),
                       (''context'', MList (context' memory))],
      distance = 0.5\<rparr>"

definition searchText :: "ConversationMemory \<Rightarrow> string" where
  "searchText memory =
     toLowerCase (userMessage memory @ '' '' @ assistantResponse memory @ '' ''
                  @ join '' '' (tags memory))"

fun scan_memories ::
    "string \<Rightarrow> ConversationMemory list \<Rightarrow> MemorySearchResult list \<Rightarrow> MemorySearchResult list" where
  "scan_memories queryLower [] results = results"
| "scan_memories queryLower (memory # rest) results =
     scan_memories queryLower rest
       (if str_includes (searchText memory) queryLower then results @ [json_result memory]
        else results)"

fun scan_files ::
    "fs_state \<Rightarrow> path \<Rightarrow> string \<Rightarrow> string list \<Rightarrow> MemorySearchResult list
     \<Rightarrow> MemorySearchResult list" where
  "scan_files st userDir queryLower [] results = results"
| "scan_files st userDir queryLower (file # files) results =
     (if \<not> endsWith file ''.json'' then scan_files st userDir queryLower files results
      else case fs_readFile st (path_join userDir file) of
             Inr (MemoryArray memories) \<Rightarrow>
               scan_files st userDir queryLower files (scan_memories queryLower memories results)
           | _ \<Rightarrow> scan_files st userDir queryLower files results)"

text \<open>
  What the scan makes of one session file (\<open>readFile\<close>, \<open>JSON.parse\<close>, iteration): its
  records, or nothing when the file cannot be read, parsed or iterated.
\<close>

definition session_records :: "fs_state \<Rightarrow> path \<Rightarrow> string \<Rightarrow> ConversationMemory list" where
  "session_records st userDir file =
     (case fs_readFile st (path_join userDir file) of
        Inr (MemoryArray memories) \<Rightarrow> memories
      | _ \<Rightarrow> [])"

definition active_user :: "world \<Rightarrow> string" where
  "active_user w = or_else (currentUserId (rc w)) (or_else (MCP_USER_ID (env w)) ''unknown-user'')"

definition searchJsonMemories ::
    "manager \<Rightarrow> world \<Rightarrow> string \<Rightarrow> string option \<Rightarrow> int
     \<Rightarrow> MemorySearchResult list" where
  "searchJsonMemories m w query sid limit =
     (let queryLower = toLowerCase query;
          userDir = path_join (memoryDir m) (active_user w)
      in if \<not> fs_access (fs w) userDir then []
         else case (if truthy sid then Inr [the sid @ ''.json''] else fs_readdir (fs w) userDir) of
                Inl e \<Rightarrow> []
              | Inr files \<Rightarrow> slice0 limit (scan_files (fs w) userDir queryLower files []))"

definition searchRelevantMemories ::
    "backend \<Rightarrow> manager \<Rightarrow> world \<Rightarrow> string \<Rightarrow> string option \<Rightarrow> int option
     \<Rightarrow> MemorySearchResult list \<times> world" where
  "searchRelevantMemories b m w query sid limit_opt =
     (let limit = (case limit_opt of None \<Rightarrow> 5 | Some l \<Rightarrow> l)
      in if collection m \<noteq> None \<and> client m \<noteq> None
         then (let wh = build_where sid (env w);
                   w' = w\<lparr>calls := calls w @ [Query query limit wh]\<rparr>
               in case query_reply b (calls w) query limit wh of
                    None \<Rightarrow> (searchJsonMemories m w' query sid limit, w')
                  | Some rows \<Rightarrow>
                      if rows \<noteq> []
                      then (map (\<lambda>row. \<lparr>content = fst row, metadata = fst (snd row),
                                         distance = snd (snd row)\<rparr>) rows, w')
                      else (searchJsonMemories m w' query sid limit, w'))
         else (searchJsonMemories m w query sid limit, w))"




definition spec_active_user :: "world \<Rightarrow> string" where
  "spec_active_user w =
     precedence (currentUserId (rc w)) (MCP_USER_ID (env w)) None ''unknown-user''"






subsection \<open>Sessions\<close>

definition listSessions :: "manager \<Rightarrow> world \<Rightarrow> string list" where
  "listSessions m w =
     (case fs_readdir (fs w) (path_join (memoryDir m) (active_user w)) of
        Inl e \<Rightarrow> []
      | Inr files \<Rightarrow>
          map (replace_first ''.json'' []) (filter (\<lambda>file. endsWith file ''.json'') files))"

definition deleteSession :: "manager \<Rightarrow> world \<Rightarrow> string \<Rightarrow> bool \<times> world" where
  "deleteSession m w sid =
     (case fs_unlink (fs w) (path_join (memoryDir m) (sid @ ''.json'')) of
        Inl e \<Rightarrow> (False, w)
      | Inr st \<Rightarrow> (True, w\<lparr>fs := st\<rparr>))"

subsection \<open>The context prompt\<close>

definition prompt_header :: string where
  "prompt_header = ''## Relevant Context from Previous Conversations:'' @ [CHR 0x0A, CHR 0x0A]"

text \<open>\<open>memory.metadata.sessionId || 'Session'\<close> inside the template literal.\<close>

definition session_label :: "metadata_t \<Rightarrow> string" where
  "session_label md =
     (case map_of md ''sessionId'' of
        None \<Rightarrow> ''Session''
      | Some (MStr s) \<Rightarrow> if s = [] then ''Session'' else s
      | Some (MNum n) \<Rightarrow> if n = 0 then ''Session'' else show_int n
      | Some (MList l) \<Rightarrow> join '','' l)"

fun append_blocks :: "MemorySearchResult list \<Rightarrow> string \<Rightarrow> int \<Rightarrow> int \<Rightarrow> js_error + string" where
  "append_blocks [] ctx currentLength maxLength = Inr ctx"
| "append_blocks (memory # rest) ctx currentLength maxLength =
     (case metadata memory of
        None \<Rightarrow> Inl TypeError
      | Some md \<Rightarrow>
          (let addition = ''### '' @ session_label md @ [CHR 0x0A] @ content memory
                          @ [CHR 0x0A, CHR 0x0A]
           in if currentLength + int (length addition) > maxLength then Inr ctx
              else append_blocks rest (ctx @ addition) (currentLength + int (length addition))
                     maxLength))"

definition buildContextPrompt ::
    "backend \<Rightarrow> manager \<Rightarrow> world \<Rightarrow> string \<Rightarrow> string option \<Rightarrow> int option \<Rightarrow> string \<times> world" where
  "buildContextPrompt b m w currentMessage sid maxLength_opt =
     (let maxLength = (case maxLength_opt of None \<Rightarrow> 2000 | Some l \<Rightarrow> l);
          (relevantMemories, w') = searchRelevantMemories b m w currentMessage sid (Some 3)
      in if length relevantMemories = 0 then ([], w')
         else case append_blocks relevantMemories prompt_header (int (length prompt_header))
                     maxLength of
                Inl e \<Rightarrow> ([], w')
              | Inr ctx \<Rightarrow> (ctx, w'))"

subsection \<open>Bulk reconciliation\<close>

text \<open>The metadata object \<open>reloadAllMemoriesFromJson\<close> passes to \<open>collection.add\<close>.\<close>

definition reload_metadata :: "ConversationMemory \<Rightarrow> metadata_t" where
  "reload_metadata memory =
     [(''sessionId'', MStr (sessionId memory)),
      (''timestamp'', MNum (timestamp memory)),
      (''userMessage'', MStr (userMessage memory)),
      (''assistantResponse'', MStr (assistantResponse memory)),
      (''context'', MStr (join '', '' (context' memory))),
      (''tags'', MStr (join '', '' (tags memory)))]"

text \<open>The \<open>add\<close> call the reload issues for a record.\<close>

definition reload_call :: "ConversationMemory \<Rightarrow> adapter_call" where
  "reload_call memory = Add (memory_id memory) (memory_document memory) (reload_metadata memory)"

text \<open>
  The inner loop over one file's records: it counts each accepted \<open>add\<close> and stops at the
  first one that throws (\<open>False\<close> in the result).
\<close>

fun reload_memories ::
    "backend \<Rightarrow> ConversationMemory list \<Rightarrow> nat \<Rightarrow> adapter_call list
     \<Rightarrow> bool \<times> nat \<times> adapter_call list" where
  "reload_memories b [] loaded issued = (True, loaded, issued)"
| "reload_memories b (memory # rest) loaded issued =
     (let call = Add (memory_id memory) (memory_document memory) (reload_metadata memory)
      in if add_ok b issued (memory_id memory) (memory_document memory) (reload_metadata memory)
         then reload_memories b rest (loaded + 1) (issued @ [call])
         else (False, loaded, issued @ [call]))"

fun reload_files ::
    "backend \<Rightarrow> fs_state \<Rightarrow> path list \<Rightarrow> nat \<Rightarrow> nat \<Rightarrow> adapter_call list
     \<Rightarrow> nat \<times> nat \<times> adapter_call list" where
  "reload_files b st [] loaded errors issued = (loaded, errors, issued)"
| "reload_files b st (filePath # rest) loaded errors issued =
     (case fs_readFile st filePath of
        Inr (MemoryArray memories) \<Rightarrow>
          (case reload_memories b memories loaded issued of
             (ok, loaded', issued') \<Rightarrow>
               reload_files b st rest loaded' (if ok then errors else errors + 1) issued')
      | _ \<Rightarrow> reload_files b st rest loaded (errors + 1) issued)"

fun collect_session_files ::
    "fs_state \<Rightarrow> path \<Rightarrow> string list \<Rightarrow> path list \<Rightarrow> path list" where
  "collect_session_files st dir [] sessionFiles = sessionFiles"
| "collect_session_files st dir (user # users) sessionFiles =
     (let userPath = path_join dir user
      in if fs_stat_isDirectory st userPath \<noteq> Some True
         then collect_session_files st dir users sessionFiles
         else collect_session_files st dir users
                (sessionFiles
                 @ map (path_join userPath)
                     (filter (\<lambda>f. endsWith f ''.json'')
                        (case fs_readdir st userPath of Inl e \<Rightarrow> [] | Inr files \<Rightarrow> files))))"

definition reloadAllMemoriesFromJson ::
    "backend \<Rightarrow> manager \<Rightarrow> world \<Rightarrow> (nat \<times> nat) \<times> world" where
  "reloadAllMemoriesFromJson b m w =
     (if collection m = None then ((0, 0), w)
      else (let users = (case fs_readdir (fs w) (memoryDir m) of
                               Inl e \<Rightarrow> [] | Inr names \<Rightarrow> names);
                sessionFiles = collect_session_files (fs w) (memoryDir m) users []
            in case reload_files b (fs w) sessionFiles 0 0 (calls w) of
                 (loaded, errors, issued) \<Rightarrow> ((loaded, errors), w\<lparr>calls := issued\<rparr>)))"

section \<open>Concrete states for evaluation\<close>

definition no_env :: process_env where
  "no_env = \<lparr>MCP_USER_ID = None, MCP_TEAM_ID = None, MCP_DISABLE_JSON = None,
             MCP_PRIVATE_JSON_ONLY = None, MCP_PROJECT_ID = None\<rparr>"

definition offline :: backend where
  "offline = \<lparr>construct_ok = False, getCollection_ok = False, createCollection_ok = False,
              add_ok = (\<lambda>issued i d md. False), query_reply = (\<lambda>issued q n wh. None)\<rparr>"

text \<open>The memory directory \<open>/srv/.mcp-memory\<close> and a file system that holds it.\<close>

definition memory_path :: path where
  "memory_path = [''srv'', ''.mcp-memory'']"

definition memory_tree :: "(string \<times> node) list \<Rightarrow> node" where
  "memory_tree es = Dir [(''srv'', Dir [(''.mcp-memory'', Dir es)])]"

definition json_only :: manager where
  "json_only = \<lparr>client = None, collection = None, memoryDir = memory_path, initialized = True\<rparr>"

definition nginx_memory :: ConversationMemory where
  "nginx_memory =
     \<lparr>sessionId = ''s1'', timestamp = 1700000000000, userMessage = ''fix nginx config'',
      assistantResponse = ''edit /etc/nginx/nginx.conf'', context' = [],
      tags = [''configuration''], source = None, userId = None, teamId = None,
      visibility = Some Team, projectId = None, domain = None\<rparr>"

text \<open>The nginx record as it is stored for alice.\<close>

definition alice_nginx :: ConversationMemory where
  "alice_nginx = nginx_memory\<lparr>userId := Some ''alice'', teamId := Some ''default-team''\<rparr>"

definition alice_world :: "fs_state \<Rightarrow> world" where
  "alice_world st =
     \<lparr>fs = st, rc = \<lparr>currentUserId = Some ''alice'', currentTeamId = None\<rparr>,
      env = no_env, calls = []\<rparr>"

definition empty_fs :: fs_state where
  "empty_fs = \<lparr>root = memory_tree [], disk_fault = False\<rparr>"

definition faulty_fs :: fs_state where
  "faulty_fs = \<lparr>root = memory_tree [], disk_fault = True\<rparr>"

text \<open>Alice's session file \<open>s1.json\<close> holds valid JSON that is not an array, such as \<open>{}\<close>.\<close>

definition nonarray_fs :: fs_state where
  "nonarray_fs =
     \<lparr>root = memory_tree [(''alice'', Dir [(''s1.json'', File NonArray)])], disk_fault = False\<rparr>"

text \<open>The world after user alice has stored one record of session \<open>s1\<close>.\<close>

definition stored_world :: world where
  "stored_world =
     snd (snd (storeConversation offline json_only (alice_world empty_fs) nginx_memory))"


text \<open>Alice has a directory without sessions; bob has one record in his session \<open>s1\<close>.\<close>

definition bob_memory :: ConversationMemory where
  "bob_memory =
     \<lparr>sessionId = ''s1'', timestamp = 1700000000900, userMessage = ''rotate the nginx key'',
      assistantResponse = ''done'', context' = [], tags = [], source = None,
      userId = Some ''bob'', teamId = Some ''default-team'', visibility = Some Private,
      projectId = None, domain = None\<rparr>"

definition shared_fs :: fs_state where
  "shared_fs =
     \<lparr>root = memory_tree [(''alice'', Dir []),
                          (''bob'', Dir [(''s1.json'', File (MemoryArray [bob_memory]))])],
      disk_fault = False\<rparr>"

definition carol_memory :: ConversationMemory where
  "carol_memory = nginx_memory\<lparr>userId := Some ''carol'', teamId := Some ''ops''\<rparr>"

definition bob_env_world :: world where
  "bob_env_world = (alice_world empty_fs)\<lparr>env := no_env\<lparr>MCP_USER_ID := Some ''bob''\<rparr>\<rparr>"

text \<open>A backend whose client can be constructed but whose collection cannot be provisioned.\<close>

definition unprovisioned :: backend where
  "unprovisioned = \<lparr>construct_ok = True, getCollection_ok = False, createCollection_ok = False,
              add_ok = (\<lambda>issued i d md. False), query_reply = (\<lambda>issued q n wh. None)\<rparr>"

text \<open>
  A backend that accepts every \<open>add\<close> and answers a query with the documents added so
  far whose metadata satisfies the filter, in the order they were added.
\<close>

fun added_rows :: "adapter_call list \<Rightarrow> where_filter \<Rightarrow> (string \<times> metadata_t option \<times> real) list" where
  "added_rows [] wh = []"
| "added_rows (Add i d md # cs) wh =
     (if satisfies md wh then (d, Some md, 0.25) # added_rows cs wh else added_rows cs wh)"
| "added_rows (c # cs) wh = added_rows cs wh"

definition echo_backend :: backend where
  "echo_backend =
     \<lparr>construct_ok = True, getCollection_ok = True, createCollection_ok = True,
      add_ok = (\<lambda>issued i d md. True),
      query_reply = (\<lambda>issued q n wh. Some (slice0 n (added_rows issued wh)))\<rparr>"

definition vector_ready :: manager where
  "vector_ready =
     \<lparr>client = Some ChromaClient, collection = Some Collection, memoryDir = memory_path,
      initialized = True\<rparr>"

definition secret_memory :: ConversationMemory where
  "secret_memory =
     \<lparr>sessionId = ''s2'', timestamp = 1700000000500, userMessage = ''nginx admin password'',
      assistantResponse = ''stored'', context' = [], tags = [], source = None,
      userId = None, teamId = None, visibility = Some Private, projectId = None, domain = None\<rparr>"

definition private_indexed_env :: process_env where
  "private_indexed_env = no_env\<lparr>MCP_PRIVATE_JSON_ONLY := Some ''0''\<rparr>"

text \<open>
  The world after alice has stored a private record and a team record with the vector
  backend ready and \<open>MCP_PRIVATE_JSON_ONLY=0\<close>, so that both reach the backend.
\<close>

definition indexed_world :: world where
  "indexed_world =
     snd (snd (storeConversation echo_backend vector_ready
       (snd (snd (storeConversation echo_backend vector_ready
          ((alice_world empty_fs)\<lparr>env := private_indexed_env\<rparr>) secret_memory)))
       nginx_memory))"

text \<open>The nginx record under session identifiers that are not plain names.\<close>

definition traversal_memory :: ConversationMemory where
  "traversal_memory = nginx_memory\<lparr>sessionId := ''../bob/s1''\<rparr>"

definition nested_memory :: ConversationMemory where
  "nested_memory = nginx_memory\<lparr>sessionId := ''a/b''\<rparr>"

section \<open>Paths and the file tree\<close>

lemma split_on_plain: "c \<notin> set s \<Longrightarrow> split_on c s = [s]"
  by (induction s) auto

lemma path_join_plain: "plain name \<Longrightarrow> path_join p name = p @ [name]"
  by (simp add: path_join_def plain_def split_on_plain)

lemma plain_json: "CHR ''/'' \<notin> set sid \<Longrightarrow> plain (sid @ ''.json'')"
  by (auto simp: plain_def append_eq_Cons_conv)

lemma lookup_append:
  "lookup n (p @ q) = (case lookup n p of None \<Rightarrow> None | Some n' \<Rightarrow> lookup n' q)"
  by (induction n p rule: lookup.induct) (auto split: option.splits)

section \<open>Evaluation helpers\<close>

lemma alice_paths:
  "path_join memory_path ''alice'' = [''srv'', ''.mcp-memory'', ''alice'']"
  "path_join memory_path ''s1.json'' = [''srv'', ''.mcp-memory'', ''s1.json'']"
  "path_join [''srv'', ''.mcp-memory''] ''alice'' = [''srv'', ''.mcp-memory'', ''alice'']"
  "path_join [''srv'', ''.mcp-memory''] ''s1.json'' = [''srv'', ''.mcp-memory'', ''s1.json'']"
  "path_join [''srv'', ''.mcp-memory'', ''alice''] ''s1.json''
     = [''srv'', ''.mcp-memory'', ''alice'', ''s1.json'']"
  "path_join [''srv'', ''.mcp-memory'', ''alice''] ''s2.json''
     = [''srv'', ''.mcp-memory'', ''alice'', ''s2.json'']"
  by (simp_all add: path_join_def memory_path_def)

lemma sanitize_alice: "sanitize ''alice'' = ''alice''"
  by (simp add: sanitize_def safe_char_def)

lemmas store_eval =
  no_env_def offline_def json_only_def nginx_memory_def alice_world_def empty_fs_def
  storeConversation_def storeConversationToJson_def resolve_userId_def resolve_teamId_def
  resolve_visibility_def disableJson_def jsonOnlyPrivate_def or_else_def toLowerCase_def
  sanitize_alice alice_paths memory_tree_def Let_def
  fs_mkdir_def fs_readFile_def fs_writeFile_def

lemma stored_world_eq:
  "stored_world =
     alice_world \<lparr>root = memory_tree [(''alice'', Dir [(''s1.json'', File (MemoryArray [alice_nginx]))])],
                  disk_fault = False\<rparr>"
  by (simp add: stored_world_def alice_nginx_def store_eval)

lemma active_user_fs [simp]: "active_user (w\<lparr>fs := st\<rparr>) = active_user w"
  by (simp add: active_user_def)

lemmas search_eval =
  searchRelevantMemories_def searchJsonMemories_def json_only_def active_user_def or_else_def
  alice_paths memory_tree_def endsWith_def truthy_def toLowerCase_def lower_char_def slice0_def
  searchText_def json_result_def memory_document_def fs_access_def fs_readdir_def
  fs_readFile_def Let_def

section \<open>Session deletion\<close>

text \<open>
  C2. The specification: after \<open>deleteSession(s)\<close>, \<open>listSessions()\<close> does not contain \<open>s\<close>. On the
  code: alice stores a record of session \<open>s1\<close>; \<open>deleteSession("s1")\<close> then returns false and
  changes nothing, and \<open>listSessions()\<close> still returns \<open>s1\<close>.
\<close>

theorem deleteSession_keeps_session:
  "listSessions json_only stored_world = [''s1'']
   \<and> deleteSession json_only stored_world ''s1'' = (False, stored_world)
   \<and> listSessions json_only (snd (deleteSession json_only stored_world ''s1'')) = [''s1'']"
  by (simp add: stored_world_eq alice_world_def no_env_def json_only_def listSessions_def
      deleteSession_def active_user_def or_else_def alice_paths memory_tree_def endsWith_def
      fs_readdir_def fs_unlink_def)

section \<open>Write failures\<close>

text \<open>\<open>storeConversation\<close> returns true on every path: the result of the JSON write is dropped.\<close>

lemma storeConversation_true: "fst (storeConversation b m w memory) = True"
  by (simp add: storeConversation_def Let_def split: prod.splits)

text \<open>
  C3. The specification: when the disk write of the append fails and JSON persistence is enabled, the
  store operation returns false. On the code: with a volume that rejects writes,
  \<open>storeConversationToJson\<close> returns false and nothing is written, yet \<open>storeConversation\<close>
  returns true.
\<close>

theorem storeConversation_hides_write_failure:
  "\<not> disableJson (env (alice_world faulty_fs))
   \<and> storeConversationToJson json_only (alice_world faulty_fs) alice_nginx
       = (False, alice_world faulty_fs)
   \<and> storeConversation offline json_only (alice_world faulty_fs) nginx_memory
       = (True, json_only, alice_world faulty_fs)"
  by (simp add: faulty_fs_def alice_nginx_def store_eval)

section \<open>The length of the context prompt\<close>

lemma append_blocks_bound:
  "append_blocks rs ctx cur maxLength = Inr out \<Longrightarrow> cur = int (length ctx) \<Longrightarrow>
   int (length ctx) \<le> bound \<Longrightarrow> maxLength \<le> bound \<Longrightarrow> int (length out) \<le> bound"
proof (induction rs arbitrary: ctx cur)
  case Nil
  then show ?case by simp
next
  case (Cons r rs)
  show ?case
  proof (cases "metadata r")
    case None
    with Cons.prems show ?thesis by simp
  next
    case (Some md)
    let ?add = "''### '' @ session_label md @ [CHR 0x0A] @ content r @ [CHR 0x0A, CHR 0x0A]"
    show ?thesis
    proof (cases "cur + int (length ?add) > maxLength")
      case True
      with Cons.prems Some show ?thesis by (simp add: Let_def)
    next
      case False
      with Cons.prems Some
      have run: "append_blocks rs (ctx @ ?add) (cur + int (length ?add)) maxLength = Inr out"
        by (simp add: Let_def)
      have len: "cur + int (length ?add) = int (length (ctx @ ?add))"
        using Cons.prems(2) by simp
      have "int (length (ctx @ ?add)) \<le> bound"
        using False Cons.prems(4) len by linarith
      with Cons.IH [OF run len] Cons.prems(4) show ?thesis by blast
    qed
  qed
qed

text \<open>
  What does hold for every input: the prompt is no longer than the larger of the requested
  maximum and the 50 characters of the heading, so the specified bound holds from a
  maximum of 50 on.
\<close>

lemma buildContextPrompt_bound:
  "int (length (fst (buildContextPrompt b m w msg sid ml)))
     \<le> max (case ml of None \<Rightarrow> 2000 | Some l \<Rightarrow> l) (int (length prompt_header))"
proof -
  let ?M = "case ml of None \<Rightarrow> 2000 | Some l \<Rightarrow> l"
  obtain rs w' where s: "searchRelevantMemories b m w msg sid (Some 3) = (rs, w')"
    by (cases "searchRelevantMemories b m w msg sid (Some 3)")
  show ?thesis
  proof (cases "append_blocks rs prompt_header (int (length prompt_header)) ?M")
    case (Inl e)
    with s show ?thesis by (simp add: buildContextPrompt_def Let_def)
  next
    case (Inr out)
    then have "int (length out) \<le> max ?M (int (length prompt_header))"
      by (rule append_blocks_bound) simp_all
    with s Inr show ?thesis by (simp add: buildContextPrompt_def Let_def)
  qed
qed

lemma buildContextPrompt_bound_from_50:
  assumes "50 \<le> maxLength"
  shows "int (length (fst (buildContextPrompt b m w msg sid (Some maxLength)))) \<le> maxLength"
  using buildContextPrompt_bound [of b m w msg sid "Some maxLength"] assms
  by (simp add: prompt_header_def)

text \<open>
  C5. The specification: for every requested maximum, the prompt is at most that long. On the code:
  alice has one stored record that matches \<open>nginx\<close>; with a maximum of 10 the builder
  returns the heading alone, which is 50 characters long.
\<close>

theorem buildContextPrompt_exceeds_maxLength:
  "buildContextPrompt offline json_only stored_world ''nginx'' None (Some 10)
     = (prompt_header, stored_world)
   \<and> length prompt_header = 50"
  by (simp add: stored_world_eq alice_world_def no_env_def buildContextPrompt_def
      alice_nginx_def nginx_memory_def prompt_header_def session_label_def search_eval)

section \<open>Session deletion and the user's listing\<close>

text \<open>
  For a session identifier without \<open>/\<close> and an active user whose name is a plain segment,
  \<open>deleteSession\<close> unlinks a file in the memory directory itself, and the listing of the
  user's directory is the same before and after.
\<close>

lemma remove_lookup_sibling:
  "remove n (d @ [f]) = Some n' \<Longrightarrow>
   lookup n' (d @ [u]) = (if u = f then None else lookup n (d @ [u]))"
proof (induction d arbitrary: n n')
  case Nil
  then obtain es where n: "n = Dir es" by (cases n) auto
  with Nil have "n' = Dir (AList.delete f es)" by (simp split: if_splits)
  with n show ?case by (simp add: delete_conv)
next
  case (Cons s d)
  then obtain es where n: "n = Dir es" by (cases n) auto
  with Cons.prems obtain x x' where x: "map_of es s = Some x" "remove x (d @ [f]) = Some x'"
    "n' = Dir (AList.update s x' es)"
    by (simp split: option.splits)
  from Cons.IH [OF x(2)] n x show ?case by (simp add: update_conv')
qed

lemma deleteSession_listSessions:
  assumes "CHR ''/'' \<notin> set sid" and "plain (active_user w)"
  shows "listSessions m (snd (deleteSession m w sid)) = listSessions m w"
proof -
  let ?f = "memoryDir m @ [sid @ ''.json'']"
  have pf: "path_join (memoryDir m) (sid @ ''.json'') = ?f"
    using assms(1) by (simp add: path_join_plain plain_json)
  have pu: "path_join (memoryDir m) (active_user w) = memoryDir m @ [active_user w]"
    using assms(2) by (simp add: path_join_plain)
  show ?thesis
  proof (cases "fs_unlink (fs w) ?f")
    case (Inl e)
    then show ?thesis by (simp add: deleteSession_def pf)
  next
    case (Inr st)
    have "\<exists>c r. lookup (root (fs w)) ?f = Some (File c) \<and> remove (root (fs w)) ?f = Some r
              \<and> st = (fs w)\<lparr>root := r\<rparr>"
    proof (cases "lookup (root (fs w)) ?f")
      case None
      with Inr show ?thesis by (simp add: fs_unlink_def split: if_splits)
    next
      case (Some n)
      with Inr show ?thesis
        by (cases n; cases "remove (root (fs w)) ?f") (auto simp: fs_unlink_def split: if_splits)
    qed
    then obtain c r where f: "lookup (root (fs w)) ?f = Some (File c)"
      and r: "remove (root (fs w)) ?f = Some r" and st: "st = (fs w)\<lparr>root := r\<rparr>"
      by blast
    have "fs_readdir st (memoryDir m @ [active_user w])
            = fs_readdir (fs w) (memoryDir m @ [active_user w])"
      using remove_lookup_sibling [OF r, of "active_user w"] f
      by (simp add: fs_readdir_def st)
    then show ?thesis using Inr
      by (simp add: deleteSession_def listSessions_def pf pu)
  qed
qed

section \<open>Creating directories and writing files\<close>

lemma mkdirs_lookup: "mkdirs n p = Some n' \<Longrightarrow> \<exists>es. lookup n' p = Some (Dir es)"
proof (induction n p arbitrary: n' rule: mkdirs.induct)
  case (1 c p)
  then show ?case by simp
next
  case (2 es)
  then show ?case by auto
next
  case (3 es s p)
  show ?case
  proof (cases "map_of es s")
    case None
    with "3.prems" obtain x where x: "mkdirs (Dir []) p = Some x" "n' = Dir (es @ [(s, x)])"
      by (simp split: option.splits)
    from "3.IH"(1) [OF None x(1)] None x(2) show ?thesis by (simp add: map_add_def)
  next
    case (Some y)
    with "3.prems" obtain x where x: "mkdirs y p = Some x" "n' = Dir (AList.update s x es)"
      by (simp split: option.splits)
    from "3.IH"(2) [OF Some x(1)] x(2) show ?thesis by (simp add: update_conv')
  qed
qed

lemma mkdirs_fresh_child:
  "mkdirs n p = Some n' \<Longrightarrow> lookup n p = None \<Longrightarrow> lookup n' (p @ [f]) = None"
proof (induction n p arbitrary: n' rule: mkdirs.induct)
  case (1 c p)
  then show ?case by simp
next
  case (2 es)
  then show ?case by simp
next
  case (3 es s p)
  show ?case
  proof (cases "map_of es s")
    case None
    with "3.prems" obtain x where x: "mkdirs (Dir []) p = Some x" "n' = Dir (es @ [(s, x)])"
      by (simp split: option.splits)
    have "lookup x (p @ [f]) = None"
    proof (cases p)
      case Nil
      with x(1) show ?thesis by auto
    next
      case (Cons t q)
      then have "lookup (Dir []) p = None" by simp
      from "3.IH"(1) [OF None x(1) this] show ?thesis .
    qed
    with None x(2) show ?thesis by (simp add: map_add_def)
  next
    case (Some y)
    with "3.prems" obtain x where x: "mkdirs y p = Some x" "n' = Dir (AList.update s x es)"
      by (simp split: option.splits)
    from "3.prems"(2) Some have "lookup y p = None" by simp
    from "3.IH"(2) [OF Some x(1) this] x(2) show ?thesis by (simp add: update_conv')
  qed
qed

lemma put_lookup: "put n p new = Some n' \<Longrightarrow> lookup n' p = Some new"
proof (induction n p new arbitrary: n' rule: put.induct)
  case (1 n new)
  then show ?case by simp
next
  case (2 c s p new)
  then show ?case by simp
next
  case (3 es s p new)
  show ?case
  proof (cases "p = []")
    case True
    with "3.prems" show ?thesis by (auto simp: update_conv')
  next
    case False
    with "3.prems" obtain y x where y: "map_of es s = Some y" "put y p new = Some x"
      "n' = Dir (AList.update s x es)"
      by (simp split: option.splits)
    from "3.IH" [OF False y(1) y(2)] y(3) show ?thesis by (simp add: update_conv')
  qed
qed

lemma put_ok:
  "lookup n p = Some (Dir es) \<Longrightarrow> \<exists>n'. put n (p @ [f]) new = Some n'"
proof (induction n p arbitrary: es rule: lookup.induct)
  case (1 n)
  then show ?case by simp
next
  case (2 c s p)
  then show ?case by simp
next
  case (3 ds s p)
  then obtain y where y: "map_of ds s = Some y" "lookup y p = Some (Dir es)"
    by (simp split: option.splits)
  from "3.IH" [OF y] obtain x where "put y (p @ [f]) new = Some x" by blast
  with y(1) show ?case by simp
qed

lemma fs_mkdir_result:
  assumes "fs_mkdir s p = Inr st"
  shows "disk_fault st = disk_fault s" and "\<exists>es. lookup (root st) p = Some (Dir es)"
    and "lookup (root st) (p @ [f]) = lookup (root s) (p @ [f])"
proof -
  have "disk_fault st = disk_fault s \<and> (\<exists>es. lookup (root st) p = Some (Dir es))
      \<and> lookup (root st) (p @ [f]) = lookup (root s) (p @ [f])"
  proof (cases "lookup (root s) p")
    case None
    with assms obtain r where r: "mkdirs (root s) p = Some r" "st = s\<lparr>root := r\<rparr>"
      by (auto simp: fs_mkdir_def split: if_splits option.splits)
    from mkdirs_lookup [OF r(1)] mkdirs_fresh_child [OF r(1) None, of f] None r(2)
    show ?thesis by (simp add: lookup_append)
  next
    case (Some n)
    with assms show ?thesis by (cases n) (auto simp: fs_mkdir_def)
  qed
  then show "disk_fault st = disk_fault s" and "\<exists>es. lookup (root st) p = Some (Dir es)"
    and "lookup (root st) (p @ [f]) = lookup (root s) (p @ [f])" by simp_all
qed

section \<open>Append, then scan\<close>

lemma fs_write_read:
  assumes "\<not> disk_fault st" and "lookup (root st) p = Some (Dir es)"
    and "\<forall>ds. lookup (root st) (p @ [f]) \<noteq> Some (Dir ds)"
  shows "\<exists>st'. fs_writeFile st (p @ [f]) c = Inr st' \<and> fs_readFile st' (p @ [f]) = Inr c"
proof -
  from put_ok [OF assms(2), of f "File c"] obtain r where
    r: "put (root st) (p @ [f]) (File c) = Some r" by blast
  have "fs_writeFile st (p @ [f]) c = Inr (st\<lparr>root := r\<rparr>)"
    using assms r by (auto simp: fs_writeFile_def split: option.splits node.splits)
  moreover have "fs_readFile (st\<lparr>root := r\<rparr>) (p @ [f]) = Inr c"
    using put_lookup [OF r] by (simp add: fs_readFile_def)
  ultimately show ?thesis by blast
qed

text \<open>
  When the volume accepts writes, the user's directory exists or can be created, its name
  and the session identifier are plain names, and the session file is missing, unparseable
  or an array of records, the append succeeds and a scan of the session file yields the
  records it yielded before, in their order, followed by the new record.
\<close>

lemma append_then_scan:
  assumes ok: "\<not> disk_fault (fs w)"
    and u: "u = sanitize (or_else (userId memory) (or_else (currentUserId (rc w))
                 (or_else (MCP_USER_ID (env w)) ''unknown-user'')))"
    and pu: "plain u"
    and sid: "CHR ''/'' \<notin> set (sessionId memory)"
    and mk: "fs_mkdir (fs w) (memoryDir m @ [u]) = Inr st"
    and nodir: "\<forall>ds. lookup (root (fs w)) (memoryDir m @ [u, sessionId memory @ ''.json''])
                  \<noteq> Some (Dir ds)"
    and arr: "lookup (root (fs w)) (memoryDir m @ [u, sessionId memory @ ''.json''])
                  \<noteq> Some (File NonArray)"
  shows "fst (storeConversationToJson m w memory)
     \<and> session_records (fs (snd (storeConversationToJson m w memory))) (memoryDir m @ [u])
           (sessionId memory @ ''.json'')
         = session_records (fs w) (memoryDir m @ [u]) (sessionId memory @ ''.json'') @ [memory]"
proof -
  let ?d = "memoryDir m @ [u]"
  let ?f = "sessionId memory @ ''.json''"
  have pd: "path_join (memoryDir m) u = ?d" using pu by (simp add: path_join_plain)
  have pf: "path_join ?d ?f = ?d @ [?f]" using sid by (simp add: path_join_plain plain_json)
  from fs_mkdir_result(1) [OF mk] fs_mkdir_result(2) [OF mk] fs_mkdir_result(3) [OF mk, of ?f]
  obtain es where
    ok': "\<not> disk_fault st" and d: "lookup (root st) ?d = Some (Dir es)"
    and same: "lookup (root st) (?d @ [?f]) = lookup (root (fs w)) (?d @ [?f])"
    using ok by auto
  have rd: "fs_readFile st (?d @ [?f]) = fs_readFile (fs w) (?d @ [?f])"
    using same by (simp add: fs_readFile_def)
  let ?old = "session_records (fs w) ?d ?f"
  have nodir': "\<forall>ds. lookup (root st) (?d @ [?f]) \<noteq> Some (Dir ds)"
    using nodir same by simp
  from fs_write_read [OF ok' d nodir', of "MemoryArray (?old @ [memory])"] obtain st' where
    wr: "fs_writeFile st (?d @ [?f]) (MemoryArray (?old @ [memory])) = Inr st'"
    and rd': "fs_readFile st' (?d @ [?f]) = Inr (MemoryArray (?old @ [memory]))"
    by blast
  have "fs_readFile (fs w) (?d @ [?f]) \<noteq> Inr NonArray"
    using arr by (auto simp: fs_readFile_def split: option.splits node.splits)
  then have ex: "(case fs_readFile st (?d @ [?f]) of
               Inl e \<Rightarrow> Inr []
             | Inr Unparseable \<Rightarrow> Inr []
             | Inr NonArray \<Rightarrow> Inl TypeError
             | Inr (MemoryArray existing) \<Rightarrow> Inr existing)
            = (Inr ?old :: js_error + ConversationMemory list)"
    using rd by (simp add: session_records_def pf split: sum.splits file_content.splits)
  have "storeConversationToJson m w memory = (True, w\<lparr>fs := st'\<rparr>)"
    unfolding storeConversationToJson_def Let_def u [symmetric] pd pf
    using mk ex wr by simp
  with rd' show ?thesis by (simp add: session_records_def pf)
qed

text \<open>
  C7. The specification: for every prior state of the session file, a corrupt one included,
  the append does not fail and a scan then ends with the new record. On the code: when the
  file holds valid JSON that is not an array, \<open>existingData.push\<close> throws, the append
  returns false, the file stays as it was and the scan of the session yields nothing.
\<close>

theorem append_fails_on_non_array_file:
  "storeConversationToJson json_only (alice_world nonarray_fs) nginx_memory
     = (False, alice_world nonarray_fs)
   \<and> session_records nonarray_fs (path_join (memoryDir json_only) ''alice'') ''s1.json'' = []
   \<and> searchJsonMemories json_only (alice_world nonarray_fs) [] (Some ''s1'') 5 = []"
  by (simp add: nonarray_fs_def store_eval session_records_def search_eval)

section \<open>Degraded mode\<close>

lemma storeConversationToJson_calls: "calls (snd (storeConversationToJson m w memory)) = calls w"
  by (simp add: storeConversationToJson_def Let_def split: sum.splits)

lemma storeConversationToJson_keeps:
  "calls (snd (storeConversationToJson m w memory)) = calls w"
  "rc (snd (storeConversationToJson m w memory)) = rc w"
  "env (snd (storeConversationToJson m w memory)) = env w"
  by (simp_all add: storeConversationToJson_def Let_def split: sum.splits)

lemma initialize_degraded:
  assumes "\<not> construct_ok b \<or> (\<not> getCollection_ok b \<and> \<not> createCollection_ok b)"
  shows "client (fst (initialize b (constructor b dir) w)) = None
       \<and> collection (fst (initialize b (constructor b dir) w)) = None
       \<and> initialized (fst (initialize b (constructor b dir) w))"
  using assms by (auto simp: initialize_def constructor_def split: sum.splits)

lemma store_without_adapter:
  assumes "client m = None \<or> collection m = None" and "initialized m"
  shows "storeConversation b m v memory
           = (True, m, if disableJson (env v) then v else snd (storeConversationToJson m v (enrich v memory)))"
  using assms by (auto simp: storeConversation_def enrich_def Let_def)

lemma search_without_adapter:
  assumes "client m = None \<or> collection m = None"
  shows "searchRelevantMemories b m v query sid limit
           = (searchJsonMemories m v query sid (case limit of None \<Rightarrow> 5 | Some l \<Rightarrow> l), v)"
  using assms by (auto simp: searchRelevantMemories_def Let_def)

text \<open>
  C8. When the client cannot be constructed, or neither fetching nor creating the collection
  works, initialisation ends with client and collection cleared and the initialised flag
  set; every later store returns true without a call to the backend, its effect being that
  of the JSON append alone, and every later search is the JSON keyword search, again without
  a call to the backend.
\<close>

theorem degraded_mode:
  assumes "\<not> construct_ok b \<or> (\<not> getCollection_ok b \<and> \<not> createCollection_ok b)"
  shows "client (fst (initialize b (constructor b dir) w)) = None
       \<and> collection (fst (initialize b (constructor b dir) w)) = None
       \<and> initialized (fst (initialize b (constructor b dir) w))
       \<and> storeConversation b (fst (initialize b (constructor b dir) w)) v memory
           = (True, fst (initialize b (constructor b dir) w),
              if disableJson (env v) then v
              else snd (storeConversationToJson (fst (initialize b (constructor b dir) w)) v
                         (enrich v memory)))
       \<and> calls (snd (snd (storeConversation b (fst (initialize b (constructor b dir) w)) v memory)))
           = calls v
       \<and> searchRelevantMemories b (fst (initialize b (constructor b dir) w)) v query sid limit
           = (searchJsonMemories (fst (initialize b (constructor b dir) w)) v query sid
                (case limit of None \<Rightarrow> 5 | Some l \<Rightarrow> l), v)"
proof -
  let ?m = "fst (initialize b (constructor b dir) w)"
  from initialize_degraded [OF assms, where w = w and dir = dir]
  have d: "client ?m = None" "collection ?m = None" "initialized ?m" by simp_all
  have st: "storeConversation b ?m v memory
           = (True, ?m, if disableJson (env v) then v else snd (storeConversationToJson ?m v (enrich v memory)))"
    using d by (simp add: store_without_adapter)
  have se: "searchRelevantMemories b ?m v query sid limit
           = (searchJsonMemories ?m v query sid (case limit of None \<Rightarrow> 5 | Some l \<Rightarrow> l), v)"
    using d by (simp add: search_without_adapter)
  have "calls (snd (snd (storeConversation b ?m v memory))) = calls v"
    by (simp add: st storeConversationToJson_calls)
  with d st se show ?thesis by simp
qed

theorem degraded_mode_witness:
  "construct_ok unprovisioned \<and> \<not> getCollection_ok unprovisioned
   \<and> \<not> createCollection_ok unprovisioned
   \<and> fst (initialize unprovisioned (constructor unprovisioned memory_path) (alice_world empty_fs)) = json_only
   \<and> storeConversation unprovisioned json_only (alice_world empty_fs) nginx_memory
       = (True, json_only, stored_world)
   \<and> calls stored_world = calls (alice_world empty_fs)
   \<and> searchRelevantMemories unprovisioned json_only stored_world ''nginx'' (Some ''s1'') None
       = ([json_result (nginx_memory\<lparr>userId := Some ''alice'', teamId := Some ''default-team''\<rparr>)],
          stored_world)"
proof -
  have h: "\<not> construct_ok unprovisioned
           \<or> (\<not> getCollection_ok unprovisioned \<and> \<not> createCollection_ok unprovisioned)"
    by (simp add: unprovisioned_def)
  have m: "fst (initialize unprovisioned (constructor unprovisioned memory_path) (alice_world empty_fs)) = json_only"
    by (simp add: initialize_def constructor_def unprovisioned_def alice_world_def empty_fs_def
        json_only_def memory_path_def memory_tree_def fs_mkdir_def)
  have st: "snd (storeConversationToJson json_only (alice_world empty_fs)
                  (enrich (alice_world empty_fs) nginx_memory)) = stored_world"
    by (simp add: stored_world_eq enrich_def alice_nginx_def store_eval)
  have se: "searchJsonMemories json_only stored_world ''nginx'' (Some ''s1'') 5
     = [json_result (nginx_memory\<lparr>userId := Some ''alice'', teamId := Some ''default-team''\<rparr>)]"
    by (simp add: stored_world_eq alice_world_def no_env_def alice_nginx_def nginx_memory_def
        search_eval)
  have dj: "\<not> disableJson (env (alice_world empty_fs))"
    by (simp add: alice_world_def no_env_def disableJson_def or_else_def toLowerCase_def)
  from degraded_mode [OF h, where w = "alice_world empty_fs" and dir = memory_path and v = "alice_world empty_fs"
      and memory = nginx_memory and query = "''nginx''" and sid = None and limit = None]
  have a: "storeConversation unprovisioned json_only (alice_world empty_fs) nginx_memory
       = (True, json_only, stored_world)" "calls stored_world = calls (alice_world empty_fs)"
    by (auto simp: m st dj)
  from degraded_mode [OF h, where w = "alice_world empty_fs" and dir = memory_path and v = stored_world
      and memory = nginx_memory and query = "''nginx''" and sid = "Some ''s1''" and limit = None]
  have b: "searchRelevantMemories unprovisioned json_only stored_world ''nginx'' (Some ''s1'') None
       = ([json_result (nginx_memory\<lparr>userId := Some ''alice'', teamId := Some ''default-team''\<rparr>)],
          stored_world)"
    by (simp add: m se)
  show ?thesis using a b m by (simp add: unprovisioned_def)
qed

section \<open>The filter of the vector search\<close>

lemma build_where_keys:
  "map_of (build_where sid e) ''visibility'' = Some (In [''team'', ''public''])"
  "map_of (build_where sid e) ''sessionId'' = (if truthy sid then Some (Eq (the sid)) else None)"
  "map_of (build_where sid e) ''teamId'' = (if truthy (MCP_TEAM_ID e) then Some (Eq (the (MCP_TEAM_ID e))) else None)"
  by (simp_all add: build_where_def opt_cond_def)

lemma satisfies_build_where:
  assumes "satisfies md (build_where sid e)"
  shows "map_of md ''visibility'' = Some (MStr ''team'') \<or> map_of md ''visibility'' = Some (MStr ''public'')"
proof -
  from assms have "cond_holds (In [''team'', ''public'']) (map_of md ''visibility'')"
    unfolding satisfies_def build_where_def by simp
  then show ?thesis by simp
qed

text \<open>
  C1. Every search made while client and collection are present sends one query, whose
  filter holds \<open>visibility\<close> in \<open>[team, public]\<close> always, \<open>sessionId\<close> equality exactly when a
  non-empty session id is given, and \<open>teamId\<close> equality exactly when the environment
  supplies a non-empty \<open>MCP_TEAM_ID\<close>. When the rows of the backend's reply satisfy the
  filter they were asked with, every result returned on the vector path has visibility
  \<open>team\<close> or \<open>public\<close>, never \<open>private\<close>, whatever the query, the session and the user.
\<close>

theorem vector_search_filter:
  assumes avail: "collection m \<noteq> None" "client m \<noteq> None"
    and nres: "nres = (case limit of None \<Rightarrow> 5 | Some l \<Rightarrow> l)"
    and wh: "wh = build_where sid (env w)"
  shows "calls (snd (searchRelevantMemories b m w q sid limit)) = calls w @ [Query q nres wh]
     \<and> map_of wh ''visibility'' = Some (In [''team'', ''public''])
     \<and> map_of wh ''sessionId'' = (if truthy sid then Some (Eq (the sid)) else None)
     \<and> map_of wh ''teamId''
          = (if truthy (MCP_TEAM_ID (env w)) then Some (Eq (the (MCP_TEAM_ID (env w)))) else None)
     \<and> (\<forall>rows. query_reply b (calls w) q nres wh = Some rows \<and> rows \<noteq> []
           \<and> list_all (\<lambda>row. case fst (snd row) of None \<Rightarrow> False | Some md \<Rightarrow> satisfies md wh) rows
         \<longrightarrow> list_all (\<lambda>r. \<exists>md. metadata r = Some md
                    \<and> (map_of md ''visibility'' = Some (MStr ''team'')
                        \<or> map_of md ''visibility'' = Some (MStr ''public''))
                    \<and> map_of md ''visibility'' \<noteq> Some (MStr ''private''))
               (fst (searchRelevantMemories b m w q sid limit)))"
proof -
  have c: "calls (snd (searchRelevantMemories b m w q sid limit)) = calls w @ [Query q nres wh]"
    using avail nres wh
    by (simp add: searchRelevantMemories_def Let_def split: option.splits)
  have r: "list_all (\<lambda>r. \<exists>md. metadata r = Some md
                    \<and> (map_of md ''visibility'' = Some (MStr ''team'')
                        \<or> map_of md ''visibility'' = Some (MStr ''public''))
                    \<and> map_of md ''visibility'' \<noteq> Some (MStr ''private''))
               (fst (searchRelevantMemories b m w q sid limit))"
    if rep: "query_reply b (calls w) q nres wh = Some rows" and ne: "rows \<noteq> []"
      and hon: "list_all (\<lambda>row. case fst (snd row) of None \<Rightarrow> False | Some md \<Rightarrow> satisfies md wh) rows"
    for rows
  proof -
    have res: "fst (searchRelevantMemories b m w q sid limit)
        = map (\<lambda>row. \<lparr>content = fst row, metadata = fst (snd row), distance = snd (snd row)\<rparr>) rows"
      using avail nres wh rep ne by (simp add: searchRelevantMemories_def Let_def)
    have "\<exists>md. fst (snd row) = Some md
              \<and> (map_of md ''visibility'' = Some (MStr ''team'')
                  \<or> map_of md ''visibility'' = Some (MStr ''public''))
              \<and> map_of md ''visibility'' \<noteq> Some (MStr ''private'')"
      if "row \<in> set rows" for row
    proof -
      from hon that have "case fst (snd row) of None \<Rightarrow> False | Some md \<Rightarrow> satisfies md wh"
        by (simp add: list_all_iff)
      then obtain md where md: "fst (snd row) = Some md" "satisfies md wh"
        by (cases "fst (snd row)") auto
      from satisfies_build_where [OF md(2) [unfolded wh]] md(1) show ?thesis by auto
    qed
    then show ?thesis by (simp add: res list_all_iff)
  qed
  have k: "map_of wh ''visibility'' = Some (In [''team'', ''public''])"
    "map_of wh ''sessionId'' = (if truthy sid then Some (Eq (the sid)) else None)"
    "map_of wh ''teamId''
          = (if truthy (MCP_TEAM_ID (env w)) then Some (Eq (the (MCP_TEAM_ID (env w)))) else None)"
    unfolding wh by (rule build_where_keys)+
  from c k r show ?thesis by blast
qed

lemma indexed_world_eq:
  "indexed_world =
     \<lparr>fs = \<lparr>root = memory_tree [(''alice'', Dir
               [(''s2.json'', File (MemoryArray [secret_memory\<lparr>userId := Some ''alice'',
                                              teamId := Some ''default-team''\<rparr>])),
                (''s1.json'', File (MemoryArray [alice_nginx]))])],
             disk_fault = False\<rparr>,
      rc = \<lparr>currentUserId = Some ''alice'', currentTeamId = None\<rparr>,
      env = private_indexed_env,
      calls = [Add (memory_id secret_memory) (memory_document secret_memory)
                 (store_metadata private_indexed_env secret_memory ''alice'' ''default-team'' Private),
               Add (memory_id nginx_memory) (memory_document nginx_memory)
                 (store_metadata private_indexed_env nginx_memory ''alice'' ''default-team'' Team)]\<rparr>"
  by (simp add: indexed_world_def echo_backend_def vector_ready_def secret_memory_def
      private_indexed_env_def alice_nginx_def memory_path_def [symmetric] store_eval)

lemma nginx_team_metadata:
  "satisfies (store_metadata private_indexed_env nginx_memory ''alice'' ''default-team'' Team)
     (build_where None private_indexed_env)"
  by (simp add: satisfies_def build_where_def opt_cond_def truthy_def store_metadata_def
      private_indexed_env_def no_env_def)

lemma secret_private_metadata:
  "\<not> satisfies (store_metadata private_indexed_env secret_memory ''alice'' ''default-team'' Private)
     (build_where None private_indexed_env)"
  by (simp add: satisfies_def build_where_def opt_cond_def truthy_def store_metadata_def
      private_indexed_env_def no_env_def)

theorem vector_search_filter_witness:
  "collection vector_ready \<noteq> None \<and> client vector_ready \<noteq> None
   \<and> query_reply echo_backend (calls indexed_world) ''nginx'' 5
         (build_where None (env indexed_world))
       = Some [(memory_document nginx_memory,
                Some (store_metadata private_indexed_env nginx_memory ''alice'' ''default-team'' Team),
                0.25)]
   \<and> calls (snd (searchRelevantMemories echo_backend vector_ready indexed_world ''nginx'' None None))
       = calls indexed_world @ [Query ''nginx'' 5 [(''visibility'', In [''team'', ''public''])]]
   \<and> list_all (\<lambda>r. \<exists>md. metadata r = Some md
                    \<and> (map_of md ''visibility'' = Some (MStr ''team'')
                        \<or> map_of md ''visibility'' = Some (MStr ''public''))
                    \<and> map_of md ''visibility'' \<noteq> Some (MStr ''private''))
         (fst (searchRelevantMemories echo_backend vector_ready indexed_world ''nginx'' None None))"
proof -
  let ?wh = "build_where None (env indexed_world)"
  let ?rows = "[(memory_document nginx_memory,
                Some (store_metadata private_indexed_env nginx_memory ''alice'' ''default-team'' Team),
                0.25 :: real)]"
  have h1: "collection vector_ready \<noteq> None" and h2: "client vector_ready \<noteq> None"
    by (simp_all add: vector_ready_def)
  have e: "env indexed_world = private_indexed_env"
    by (simp add: indexed_world_eq)
  have w: "?wh = [(''visibility'', In [''team'', ''public''])]"
    by (simp add: e build_where_def opt_cond_def truthy_def private_indexed_env_def no_env_def)
  have rep: "query_reply echo_backend (calls indexed_world) ''nginx'' 5 ?wh = Some ?rows"
    using nginx_team_metadata secret_private_metadata
    by (simp add: e echo_backend_def indexed_world_eq slice0_def)
  have hon: "list_all (\<lambda>row. case fst (snd row) of None \<Rightarrow> False | Some md \<Rightarrow> satisfies md ?wh) ?rows"
    using nginx_team_metadata by (simp add: e)
  note t = vector_search_filter [OF h1 h2 refl refl, where b = echo_backend and w = indexed_world
      and q = "''nginx''" and sid = None and limit = None]
  from t have c: "calls (snd (searchRelevantMemories echo_backend vector_ready indexed_world ''nginx'' None None))
       = calls indexed_world @ [Query ''nginx'' 5 ?wh]"
    by simp
  from t have "query_reply echo_backend (calls indexed_world) ''nginx'' 5 ?wh = Some ?rows \<and> ?rows \<noteq> []
           \<and> list_all (\<lambda>row. case fst (snd row) of None \<Rightarrow> False | Some md \<Rightarrow> satisfies md ?wh) ?rows
         \<longrightarrow> list_all (\<lambda>r. \<exists>md. metadata r = Some md
                    \<and> (map_of md ''visibility'' = Some (MStr ''team'')
                        \<or> map_of md ''visibility'' = Some (MStr ''public''))
                    \<and> map_of md ''visibility'' \<noteq> Some (MStr ''private''))
               (fst (searchRelevantMemories echo_backend vector_ready indexed_world ''nginx'' None None))"
    by simp
  with rep hon have r: "list_all (\<lambda>r. \<exists>md. metadata r = Some md
                    \<and> (map_of md ''visibility'' = Some (MStr ''team'')
                        \<or> map_of md ''visibility'' = Some (MStr ''public''))
                    \<and> map_of md ''visibility'' \<noteq> Some (MStr ''private''))
               (fst (searchRelevantMemories echo_backend vector_ready indexed_world ''nginx'' None None))"
    by blast
  show ?thesis using h1 h2 rep c r unfolding w by blast
qed

section \<open>Bulk reconciliation and the search filter\<close>

lemma reload_memories_calls:
  "\<exists>ms. snd (snd (reload_memories b memories loaded issued)) = issued @ map reload_call ms"
proof (induction memories arbitrary: loaded issued)
  case Nil
  show ?case by simp
next
  case (Cons memory rest)
  show ?case
  proof (cases "add_ok b issued (memory_id memory) (memory_document memory) (reload_metadata memory)")
    case True
    from Cons.IH [of "loaded + 1" "issued @ [reload_call memory]"] obtain ms where
      "snd (snd (reload_memories b rest (loaded + 1) (issued @ [reload_call memory])))
         = (issued @ [reload_call memory]) @ map reload_call ms" by blast
    with True have "snd (snd (reload_memories b (memory # rest) loaded issued))
         = issued @ map reload_call (memory # ms)"
      by (simp add: Let_def reload_call_def)
    then show ?thesis by blast
  next
    case False
    then have "snd (snd (reload_memories b (memory # rest) loaded issued))
         = issued @ map reload_call [memory]"
      by (simp add: Let_def reload_call_def)
    then show ?thesis by blast
  qed
qed

lemma reload_files_calls:
  "\<exists>ms. snd (snd (reload_files b st files loaded errors issued)) = issued @ map reload_call ms"
proof (induction files arbitrary: loaded errors issued)
  case Nil
  show ?case by simp
next
  case (Cons filePath rest)
  show ?case
  proof (cases "\<exists>memories. fs_readFile st filePath = Inr (MemoryArray memories)")
    case True
    then obtain memories where rd: "fs_readFile st filePath = Inr (MemoryArray memories)" by blast
    obtain ok loaded' issued' where rm: "reload_memories b memories loaded issued = (ok, loaded', issued')"
      by (cases "reload_memories b memories loaded issued") auto
    from reload_memories_calls [of b memories loaded issued] rm obtain d1 where
      d1: "issued' = issued @ map reload_call d1" by auto
    from Cons.IH [of loaded' "if ok then errors else errors + 1" issued'] obtain d2 where
      d2: "snd (snd (reload_files b st rest loaded' (if ok then errors else errors + 1) issued'))
            = issued' @ map reload_call d2" by blast
    have "snd (snd (reload_files b st (filePath # rest) loaded errors issued))
            = issued @ map reload_call (d1 @ d2)"
      using rd rm d1 d2 by simp
    then show ?thesis by blast
  next
    case False
    then have "reload_files b st (filePath # rest) loaded errors issued
                 = reload_files b st rest loaded (errors + 1) issued"
      by (auto split: sum.splits file_content.splits)
    with Cons.IH [of loaded "errors + 1" issued] show ?thesis by simp
  qed
qed

lemma reload_metadata_unfiltered: "\<not> satisfies (reload_metadata memory) (build_where sid e)"
proof
  assume "satisfies (reload_metadata memory) (build_where sid e)"
  then have "cond_holds (In [''team'', ''public'']) (map_of (reload_metadata memory) ''visibility'')"
    unfolding satisfies_def build_where_def by simp
  then show False by (simp add: reload_metadata_def)
qed

text \<open>
  C10. Every call the bulk reload issues is an \<open>add\<close> of a record with the reload's
  metadata, whose keys are exactly sessionId, timestamp, userMessage, assistantResponse,
  context and tags: no userId, teamId or visibility, all three of which the metadata of the
  store operation carries. Hence the metadata of a reloaded record satisfies no filter that
  a vector search builds, whatever the session and the environment.
\<close>

theorem reconciled_metadata:
  "(\<exists>ms. calls (snd (reloadAllMemoriesFromJson b m w)) = calls w @ map reload_call ms)
   \<and> map fst (reload_metadata memory)
       = [''sessionId'', ''timestamp'', ''userMessage'', ''assistantResponse'', ''context'', ''tags'']
   \<and> map_of (reload_metadata memory) ''userId'' = None
   \<and> map_of (reload_metadata memory) ''teamId'' = None
   \<and> map_of (reload_metadata memory) ''visibility'' = None
   \<and> map_of (store_metadata e memory uid tid vis) ''userId'' = Some (MStr uid)
   \<and> map_of (store_metadata e memory uid tid vis) ''teamId'' = Some (MStr tid)
   \<and> map_of (store_metadata e memory uid tid vis) ''visibility'' = Some (MStr (visibility_str vis))
   \<and> \<not> satisfies (reload_metadata memory) (build_where sid e)"
proof -
  have c: "\<exists>ms. calls (snd (reloadAllMemoriesFromJson b m w)) = calls w @ map reload_call ms"
  proof (cases "collection m = None")
    case True
    then show ?thesis by (simp add: reloadAllMemoriesFromJson_def)
  next
    case False
    let ?files = "collect_session_files (fs w) (memoryDir m)
        (case fs_readdir (fs w) (memoryDir m) of Inl e \<Rightarrow> [] | Inr names \<Rightarrow> names) []"
    from reload_files_calls [of b "fs w" ?files 0 0 "calls w"] obtain ms where
      "snd (snd (reload_files b (fs w) ?files 0 0 (calls w))) = calls w @ map reload_call ms"
      by blast
    with False have "calls (snd (reloadAllMemoriesFromJson b m w)) = calls w @ map reload_call ms"
      by (auto simp: reloadAllMemoriesFromJson_def Let_def split: prod.splits)
    then show ?thesis by blast
  qed
  have k: "map fst (reload_metadata memory)
       = [''sessionId'', ''timestamp'', ''userMessage'', ''assistantResponse'', ''context'', ''tags'']"
    "map_of (reload_metadata memory) ''userId'' = None"
    "map_of (reload_metadata memory) ''teamId'' = None"
    "map_of (reload_metadata memory) ''visibility'' = None"
    by (simp_all add: reload_metadata_def)
  have s: "map_of (store_metadata e memory uid tid vis) ''userId'' = Some (MStr uid)"
    "map_of (store_metadata e memory uid tid vis) ''teamId'' = Some (MStr tid)"
    "map_of (store_metadata e memory uid tid vis) ''visibility'' = Some (MStr (visibility_str vis))"
    by (simp_all add: store_metadata_def)
  from c k s reload_metadata_unfiltered [of memory sid e] show ?thesis by blast
qed

theorem reconciled_metadata_witness:
  "reloadAllMemoriesFromJson echo_backend vector_ready stored_world
     = ((1, 0), stored_world\<lparr>calls := [reload_call alice_nginx]\<rparr>)
   \<and> \<not> satisfies (reload_metadata alice_nginx) (build_where None no_env)
   \<and> query_reply echo_backend [reload_call alice_nginx] ''nginx'' 5 (build_where None no_env)
       = Some []
   \<and> map_of (store_metadata no_env alice_nginx ''alice'' ''default-team'' Team) ''visibility''
       = Some (MStr ''team'')"
proof -
  note t = reconciled_metadata [where b = echo_backend and m = vector_ready and w = stored_world
      and memory = alice_nginx and sid = None and e = no_env and uid = "''alice''"
      and tid = "''default-team''" and vis = Team]
  from t have u: "\<not> satisfies (reload_metadata alice_nginx) (build_where None no_env)"
    by blast
  from t have v: "map_of (store_metadata no_env alice_nginx ''alice'' ''default-team'' Team) ''visibility''
       = Some (MStr ''team'')" by simp
  have r: "reloadAllMemoriesFromJson echo_backend vector_ready stored_world
     = ((1, 0), stored_world\<lparr>calls := [reload_call alice_nginx]\<rparr>)"
    by (simp add: reloadAllMemoriesFromJson_def vector_ready_def stored_world_eq alice_world_def
        echo_backend_def endsWith_def reload_call_def Let_def memory_tree_def alice_paths
        memory_path_def fs_readdir_def fs_readFile_def fs_stat_isDirectory_def)
  have q: "query_reply echo_backend [reload_call alice_nginx] ''nginx'' 5 (build_where None no_env)
       = Some []"
    using u by (simp add: echo_backend_def reload_call_def slice0_def)
  from r u q v show ?thesis by blast
qed

section \<open>Ownership resolution\<close>

lemma or_else_precedence:
  "or_else a (or_else b (or_else c d)) = precedence a b c d"
  by (auto simp: or_else_def precedence_def truthy_def split: option.splits)

lemma precedence_nonempty: "d \<noteq> [] \<Longrightarrow> precedence a b c d \<noteq> []"
  by (auto simp: precedence_def truthy_def split: option.splits)

lemma or_else_Some: "u \<noteq> [] \<Longrightarrow> or_else (Some u) d = u"
  by (simp add: or_else_def)

lemma storeConversation_fs:
  "initialized m \<Longrightarrow>
   fs (snd (snd (storeConversation b m w memory)))
     = (if \<not> disableJson (env w) then fs (snd (storeConversationToJson m w (enrich w memory)))
        else fs w)"
  by (simp add: storeConversation_def Let_def enrich_def)

lemma bob_paths:
  "path_join [''srv'', ''.mcp-memory'', ''alice''] ''../bob/s1.json''
     = [''srv'', ''.mcp-memory'', ''bob'', ''s1.json'']"
  "path_join [''srv'', ''.mcp-memory'', ''alice''] ''a/b.json''
     = [''srv'', ''.mcp-memory'', ''alice'', ''a'', ''b.json'']"
  by (simp_all add: path_join_def)

text \<open>
  For an initialised manager, JSON persistence enabled, a volume that accepts writes, a
  session identifier without \<open>/\<close> and a resolved user whose sanitised name is a plain
  segment: the effective user and team follow the precedence, and the record, carrying
  both, is appended to the session file in the directory of the resolved user.
\<close>

lemma resolved_directory:
  assumes init: "initialized m" and json: "\<not> disableJson (env w)"
    and ok: "\<not> disk_fault (fs w)"
    and uid: "uid = precedence (currentUserId (rc w)) (MCP_USER_ID (env w)) (userId memory) ''unknown-user''"
    and tid: "tid = precedence (currentTeamId (rc w)) (MCP_TEAM_ID (env w)) (teamId memory) ''default-team''"
    and pu: "plain (sanitize uid)"
    and sid: "CHR ''/'' \<notin> set (sessionId memory)"
    and mk: "fs_mkdir (fs w) (memoryDir m @ [sanitize uid]) = Inr st"
    and nodir: "\<forall>ds. lookup (root (fs w)) (memoryDir m @ [sanitize uid, sessionId memory @ ''.json''])
                  \<noteq> Some (Dir ds)"
    and arr: "lookup (root (fs w)) (memoryDir m @ [sanitize uid, sessionId memory @ ''.json''])
                  \<noteq> Some (File NonArray)"
  shows "resolve_userId w memory = uid \<and> resolve_teamId w memory = tid
     \<and> session_records (fs (snd (snd (storeConversation b m w memory))))
          (memoryDir m @ [sanitize uid]) (sessionId memory @ ''.json'')
        = session_records (fs w) (memoryDir m @ [sanitize uid]) (sessionId memory @ ''.json'')
          @ [memory\<lparr>userId := Some uid, teamId := Some tid,
                    visibility := Some (resolve_visibility memory)\<rparr>]"
proof -
  let ?mem = "memory\<lparr>userId := Some uid, teamId := Some tid,
                    visibility := Some (resolve_visibility memory)\<rparr>"
  have ru: "resolve_userId w memory = uid" "resolve_teamId w memory = tid"
    using uid tid by (simp_all add: resolve_userId_def resolve_teamId_def or_else_precedence)
  have ne: "uid \<noteq> []" using uid by (simp add: precedence_nonempty)
  have u: "sanitize uid = sanitize (or_else (userId ?mem) (or_else (currentUserId (rc w))
                 (or_else (MCP_USER_ID (env w)) ''unknown-user'')))"
    using ne by (simp add: or_else_Some)
  have s: "sessionId ?mem = sessionId memory" by simp
  from append_then_scan [of w "sanitize uid" ?mem m st, unfolded s, OF ok u pu sid mk nodir arr]
  have app: "session_records (fs (snd (storeConversationToJson m w ?mem)))
           (memoryDir m @ [sanitize uid]) (sessionId memory @ ''.json'')
         = session_records (fs w) (memoryDir m @ [sanitize uid]) (sessionId memory @ ''.json'')
           @ [?mem]"
    by simp
  have "fs (snd (snd (storeConversation b m w memory))) = fs (snd (storeConversationToJson m w ?mem))"
    using init json ru by (simp add: storeConversation_fs enrich_def Let_def)
  with ru app show ?thesis by simp
qed

text \<open>
  C6. The specification: the resolved user determines the per-user directory the record is
  appended to. On the code: alice, resolved from the request scope context, stores a record
  whose session identifier is \<open>../bob/s1\<close>; the record is appended to the session file in
  bob's directory and alice's directory stays empty. With the identifier \<open>a/b\<close> the write
  fails and no record is appended anywhere.
\<close>

theorem record_lands_in_other_directory:
  "resolve_userId (alice_world shared_fs) traversal_memory = ''alice''
   \<and> storeConversation offline json_only (alice_world shared_fs) traversal_memory
       = (True, json_only,
          alice_world
            \<lparr>root = memory_tree
               [(''alice'', Dir []),
                (''bob'', Dir [(''s1.json'', File (MemoryArray
                   [bob_memory,
                    traversal_memory\<lparr>userId := Some ''alice'', teamId := Some ''default-team''\<rparr>]))])],
             disk_fault = False\<rparr>)
   \<and> storeConversationToJson json_only (alice_world shared_fs)
         (nested_memory\<lparr>userId := Some ''alice''\<rparr>)
       = (False, alice_world shared_fs)"
  by (simp add: shared_fs_def traversal_memory_def nested_memory_def bob_paths store_eval)

section \<open>The keyword fallback\<close>




lemma endsWith_json: "endsWith (s @ ''.json'') ''.json''"
  by (simp add: endsWith_def)










lemma spec_scanned_records_calls [simp]:
  "spec_active_user (w\<lparr>calls := c\<rparr>) = spec_active_user w"
  by (simp add: spec_active_user_def)




text \<open>
  The session identifier reaches \<open>path.join\<close> unchecked: alice, searching the session
  \<open>../bob/s1\<close>, is given the record of bob's session.
\<close>

lemma search_reads_other_directory:
  "searchJsonMemories json_only (alice_world shared_fs) ''nginx'' (Some ''../bob/s1'') 5
     = [json_result bob_memory]"
  by (simp add: shared_fs_def alice_world_def no_env_def bob_memory_def bob_paths search_eval)

section \<open>Provisioning\<close>

text \<open>
  C9. \<open>ensureCollection\<close> returns without error exactly when the create-collection
  response has status 200, 201 or 409 (409, "already exists", counts as success); for every
  other status it raises an error.
\<close>

theorem ensureCollection_status:
  "(ensureCollection (Inr r) = Inr ()) = (status r = 200 \<or> status r = 201 \<or> status r = 409)
   \<and> (ensureCollection (Inr r) \<noteq> Inr () \<longrightarrow> (\<exists>msg. ensureCollection (Inr r) = Inl (Error msg)))"
  by (auto simp: ensureCollection_def)

theorem ensureCollection_status_witness:
  "ensureCollection (Inr \<lparr>status = 500, body_text = ''boom''\<rparr>) \<noteq> Inr ()
   \<and> (\<exists>msg. ensureCollection (Inr \<lparr>status = 500, body_text = ''boom''\<rparr>) = Inl (Error msg))
   \<and> ensureCollection (Inr \<lparr>status = 409, body_text = ''exists''\<rparr>) = Inr ()"
  using ensureCollection_status [of "\<lparr>status = 500, body_text = ''boom''\<rparr>"]
        ensureCollection_status [of "\<lparr>status = 409, body_text = ''exists''\<rparr>"]
  by simp

end
